theory Spec2Isabelle
  imports Main
begin

section \<open>Noted popup: linkage state of the browser extension\<close>

text \<open>
  A shallow embedding of the popup script of the Noted extension (class \<open>NotedPopup\<close>): the
  functions that load and generate the user id, show the connected and the disconnected
  state, check the Notion connection, detect a user that finished OAuth, poll for OAuth
  completion and enable the summarize button.

  The repository holds the popup script twice: for the backend on \<open>localhost\<close> and for the
  hosted backend. The two scripts share most of their text; a function that differs takes
  the build as its first argument.

  Conventions.
  \<^item> The popup object, the two Chrome storage areas and the DOM elements the functions
    touch form one record that is passed through every function and returned updated.
  \<^item> A \<open>fetch\<close> has three outcomes: it throws (also when the body is not JSON), it answers
    with a status that is not ok, or it answers ok with a parsed body.
  \<^item> Every asynchronous call is taken at its completion, at the place where it is started;
    this includes \<open>generateUserId\<close>, which the source starts without awaiting. Timer ticks
    run one after the other.
  \<^item> The elements of the popup page exist, and Chrome storage operations do not fail.
\<close>

subsection \<open>JavaScript values\<close>

text \<open>Truthiness of a value that is a string, \<open>null\<close> or \<open>undefined\<close>.\<close>

definition truthy :: "string option \<Rightarrow> bool" where
  "truthy v = (case v of None \<Rightarrow> False | Some s \<Rightarrow> s \<noteq> [])"

text \<open>\<open>String.prototype.trim\<close> on the characters below 256.\<close>

definition is_space :: "char \<Rightarrow> bool" where
  "is_space c = ((of_char c :: nat) \<in> {9, 10, 11, 12, 13, 32, 160})"

definition trim :: "string \<Rightarrow> string" where
  "trim s = rev (dropWhile is_space (rev (dropWhile is_space s)))"

text \<open>\<open>String.prototype.includes\<close>.\<close>

fun starts_with :: "string \<Rightarrow> string \<Rightarrow> bool" where
  "starts_with xs [] = True"
| "starts_with [] (y # ys) = False"
| "starts_with (x # xs) (y # ys) = (x = y \<and> starts_with xs ys)"

fun str_includes :: "string \<Rightarrow> string \<Rightarrow> bool" where
  "str_includes [] sub = (sub = [])"
| "str_includes (c # cs) sub = (starts_with (c # cs) sub \<or> str_includes cs sub)"

text \<open>\<open>classList.contains\<close>: the class attribute split at spaces.\<close>

fun class_tokens :: "string \<Rightarrow> string \<Rightarrow> string list" where
  "class_tokens cur [] = (if cur = [] then [] else [cur])"
| "class_tokens cur (c # cs) =
     (if c = CHR '' '' then (if cur = [] then class_tokens [] cs else cur # class_tokens [] cs)
      else class_tokens (cur @ [c]) cs)"

definition classList_contains :: "string \<Rightarrow> string \<Rightarrow> bool" where
  "classList_contains className tok = (tok \<in> set (class_tokens [] className))"

text \<open>\<open>btoa\<close>: base64 with padding.\<close>

definition b64_alphabet :: string where
  "b64_alphabet = ''ABCDEFGHIJKLMNOPQRSTUVWXYZabcdefghijklmnopqrstuvwxyz0123456789+/''"

definition b64 :: "nat \<Rightarrow> char" where
  "b64 n = b64_alphabet ! (n mod 64)"

fun btoa :: "string \<Rightarrow> string" where
  "btoa (a # b # c # rest) =
     [b64 (of_char a div 4),
      b64 ((of_char a mod 4) * 16 + of_char b div 16),
      b64 ((of_char b mod 16) * 4 + of_char c div 64),
      b64 (of_char c mod 64)] @ btoa rest"
| "btoa [a, b] =
     [b64 (of_char a div 4),
      b64 ((of_char a mod 4) * 16 + of_char b div 16),
      b64 ((of_char b mod 16) * 4),
      CHR ''='']"
| "btoa [a] =
     [b64 (of_char a div 4),
      b64 ((of_char a mod 4) * 16),
      CHR ''='', CHR ''='']"
| "btoa [] = []"

subsection \<open>Remote answers\<close>

datatype 'a response = Threw | NotOk | Ok 'a

text \<open>Body of \<open>GET /user/{id}/status\<close>.\<close>

record status_data =
  connected :: bool
  reason :: "string option"
  action :: "string option"
  message :: "string option"
  workspace_name :: "string option"

text \<open>Body of \<open>GET /oauth/check-completion\<close>.\<close>

record completion_check =
  has_users :: bool
  latest_user_id :: "string option"

text \<open>Answer of the background script to the message \<open>getOAuthStatus\<close>.\<close>

record completion_data =
  completion_status :: string
  completion_userId :: string

record oauth_status =
  isInProgress :: bool
  completionData :: "completion_data option"

text \<open>
  What the world answers during one invocation: \<open>GET /\<close>, \<open>GET /oauth/check-completion\<close>,
  \<open>GET /user/{id}/status\<close> and the background script. \<open>oauth_reply\<close> is \<open>None\<close> when the
  message to the background script fails or is not answered.
\<close>

record remote =
  backend_root :: "unit response"
  check_completion :: "completion_check response"
  user_status :: "string \<Rightarrow> status_data response"
  oauth_reply :: "oauth_status option"

subsection \<open>State of the popup\<close>

datatype build = LocalBackend | Hosted

datatype msg_type = MsgError | MsgSuccess | MsgInfo

datatype button_text = ConnectToNotion | ConnectedToNotion | Connecting

datatype save_text = SaveSettings | ApiKeySaved | UpdateApiKey | EnterNewApiKey | ApiKeyUnchanged

record popup =
  userId :: "string option"
  backendConnected :: bool
  fingerprint :: string
  runtime_id :: "string option"
  sync_userId :: "string option"
  sync_openaiApiKey :: "string option"
  sync_openaiKeyValid :: bool
  local_storage :: "string \<Rightarrow> string option"
  status_className :: string
  status_was_connected :: bool
  status_hidden :: bool
  refresh_hidden :: bool
  connect_text :: button_text
  connect_disabled :: bool
  connect_connected :: bool
  connect_connecting :: bool
  summarize_disabled :: bool
  saveSettings_hidden :: bool
  saveSettings_text :: save_text
  saveSettings_disabled :: bool
  openaiKey_value :: string
  openaiKey_masked :: bool
  shown_message :: "(msg_type \<times> string) option"
  background_messages :: "string list"
  scheduled_checks :: nat

text \<open>
  \<open>fingerprint\<close> is what \<open>canvas.toDataURL()\<close> returns in this installation and \<open>runtime_id\<close> is
  \<open>chrome.runtime.id\<close>. \<open>sync_openaiKeyValid\<close> holds when the stored value is \<open>true\<close>.
  \<open>openaiKey_masked\<close> is the attribute \<open>data-is-masked\<close> of the key input.
  \<open>background_messages\<close> lists the state-changing messages sent to the background script and
  \<open>scheduled_checks\<close> counts the connection checks handed to \<open>setTimeout\<close>.
\<close>

subsection \<open>Messages\<close>

definition hide_error :: "popup \<Rightarrow> popup" where
  "hide_error s =
     (case shown_message s of
        Some (MsgError, m) \<Rightarrow> s\<lparr>shown_message := None\<rparr>
      | _ \<Rightarrow> s)"

definition showMessage :: "string \<Rightarrow> msg_type \<Rightarrow> popup \<Rightarrow> popup" where
  "showMessage m t s = s\<lparr>shown_message := Some (t, m)\<rparr>"

subsection \<open>User id\<close>

definition extensionId :: "popup \<Rightarrow> string" where
  "extensionId s = (case runtime_id s of None \<Rightarrow> ''noted'' | Some i \<Rightarrow> if i = [] then ''noted'' else i)"

definition temporary_userId :: "popup \<Rightarrow> string" where
  "temporary_userId s = take 16 (btoa (fingerprint s @ extensionId s))"

definition loadStoredUserId :: "popup \<Rightarrow> popup" where
  "loadStoredUserId s =
     (if truthy (sync_userId s) then s\<lparr>userId := sync_userId s\<rparr>
      else s\<lparr>userId := Some (temporary_userId s)\<rparr>)"

definition generateUserId :: "popup \<Rightarrow> popup" where
  "generateUserId s = loadStoredUserId s"


definition setNotionUserId :: "string \<Rightarrow> popup \<Rightarrow> popup" where
  "setNotionUserId notionUserId s = s\<lparr>userId := Some notionUserId, sync_userId := Some notionUserId\<rparr>"

subsection \<open>Enabling the buttons\<close>

definition hasValidOpenaiKey :: "popup \<Rightarrow> bool" where
  "hasValidOpenaiKey s =
     (case sync_openaiApiKey s of
        None \<Rightarrow> False
      | Some k \<Rightarrow> k \<noteq> [] \<and> trim k \<noteq> [] \<and> sync_openaiKeyValid s)"

text \<open>
  The local build hides the save button when everything is configured; the hosted build
  always shows it and sets its text (and its background colour, white in every branch,
  which is left out).
\<close>

definition updateSaveSettingsVisibility :: "build \<Rightarrow> popup \<Rightarrow> popup" where
  "updateSaveSettingsVisibility b s =
     (case b of
        LocalBackend \<Rightarrow>
          (let isConnectedToNotion = str_includes (status_className s) ''connected''
           in s\<lparr>saveSettings_hidden := (hasValidOpenaiKey s \<and> isConnectedToNotion)\<rparr>)
      | Hosted \<Rightarrow>
          (let currentInputValue = trim (openaiKey_value s);
               s1 = s\<lparr>saveSettings_hidden := False\<rparr>
           in if hasValidOpenaiKey s then
                (if openaiKey_masked s
                 then s1\<lparr>saveSettings_text := ApiKeySaved, saveSettings_disabled := True\<rparr>
                 else if currentInputValue \<noteq> [] \<and> Some currentInputValue \<noteq> sync_openaiApiKey s
                 then s1\<lparr>saveSettings_text := UpdateApiKey, saveSettings_disabled := False\<rparr>
                 else if currentInputValue = []
                 then s1\<lparr>saveSettings_text := EnterNewApiKey, saveSettings_disabled := True\<rparr>
                 else s1\<lparr>saveSettings_text := ApiKeyUnchanged, saveSettings_disabled := True\<rparr>)
              else s1\<lparr>saveSettings_text := SaveSettings,
                      saveSettings_disabled := (currentInputValue = [])\<rparr>))"

definition updateUIState :: "build \<Rightarrow> popup \<Rightarrow> popup" where
  "updateUIState b s =
     (let hasConnectedClass = classList_contains (status_className s) ''connected'';
          isConnectedToNotion = (backendConnected s \<and> hasConnectedClass);
          s1 = s\<lparr>summarize_disabled :=
                   \<not> (backendConnected s \<and> isConnectedToNotion \<and> hasValidOpenaiKey s)\<rparr>;
          s2 = (if isConnectedToNotion
                then s1\<lparr>connect_disabled := True, connect_text := ConnectedToNotion,
                        connect_connecting := False, connect_connected := True\<rparr>
                else if \<not> connect_connecting s1
                then s1\<lparr>connect_disabled := False, connect_text := ConnectToNotion,
                        connect_connected := False, connect_connecting := False\<rparr>
                else s1)
      in updateSaveSettingsVisibility b s2)"

subsection \<open>Connected and disconnected state\<close>

definition clearStoredSettings :: "popup \<Rightarrow> popup" where
  "clearStoredSettings s =
     s\<lparr>sync_openaiApiKey := None, sync_openaiKeyValid := False, openaiKey_value := []\<rparr>"

definition clearExtensionStorage :: "popup \<Rightarrow> popup" where
  "clearExtensionStorage s =
     s\<lparr>sync_userId := None, sync_openaiApiKey := None, sync_openaiKeyValid := False,
       local_storage := (local_storage s)(''notionConnected'' := None, ''lastConnectionCheck'' := None),
       userId := None, openaiKey_value := []\<rparr>"

definition showConnectedState :: "build \<Rightarrow> string option \<Rightarrow> popup \<Rightarrow> popup" where
  "showConnectedState b workspaceName s =
     (let s1 = hide_error (s\<lparr>status_hidden := True, refresh_hidden := True\<rparr>);
          s2 = updateUIState b (s1\<lparr>status_className := ''status connected''\<rparr>)
      in if \<not> status_was_connected s2
         then (showMessage
                 (case workspaceName of
                    None \<Rightarrow> ''Successfully connected to Notion! You can now summarize pages.''
                  | Some w \<Rightarrow>
                      if w = [] then ''Successfully connected to Notion! You can now summarize pages.''
                      else ''Successfully connected to Notion workspace: '' @ w
                           @ ''! You can now summarize pages.'')
                 MsgSuccess s2)\<lparr>status_was_connected := True\<rparr>
         else s2)"

definition showDisconnectedState :: "build \<Rightarrow> string \<Rightarrow> popup \<Rightarrow> popup" where
  "showDisconnectedState b why s =
     (let s1 = hide_error (s\<lparr>status_hidden := True, refresh_hidden := True\<rparr>);
          s2 = updateUIState b (s1\<lparr>status_className := ''status disconnected'',
                                    status_was_connected := False\<rparr>)
      in clearStoredSettings s2)"

definition forceDisconnectedState :: "build \<Rightarrow> popup \<Rightarrow> popup" where
  "forceDisconnectedState b s =
     (let s1 = generateUserId (s\<lparr>sync_userId := None, userId := None\<rparr>);
          s2 = s1\<lparr>status_className := ''status disconnected'', status_was_connected := False,
                  status_hidden := True, connect_disabled := False,
                  connect_text := ConnectToNotion, connect_connected := False,
                  connect_connecting := False\<rparr>
      in updateUIState b (clearStoredSettings s2))"

subsection \<open>Checking the Notion connection\<close>

text \<open>
  When the token is invalid or missing, the stored user id is removed and a placeholder is
  generated; the hosted build also clears the stored settings at that place.
\<close>

definition clear_invalid_token :: "build \<Rightarrow> popup \<Rightarrow> popup" where
  "clear_invalid_token b s =
     (let s1 = generateUserId (s\<lparr>sync_userId := None, userId := None\<rparr>)
      in case b of LocalBackend \<Rightarrow> s1 | Hosted \<Rightarrow> clearStoredSettings s1)"

definition checkNotionConnection ::
  "build \<Rightarrow> (string \<Rightarrow> status_data response) \<Rightarrow> popup \<Rightarrow> popup" where
  "checkNotionConnection b status s =
     (case userId s of
        None \<Rightarrow> showDisconnectedState b ''No user ID available'' s
      | Some uid \<Rightarrow>
          if uid = [] then showDisconnectedState b ''No user ID available'' s
          else
            (case status uid of
               Threw \<Rightarrow> showDisconnectedState b ''Error checking connection'' s
             | NotOk \<Rightarrow>
                 showDisconnectedState b ''Error checking connection'' (forceDisconnectedState b s)
             | Ok data \<Rightarrow>
                 if \<not> connected data then
                   (let s1 = (if reason data = Some ''invalid_token'' \<or> reason data = Some ''no_token''
                              then clear_invalid_token b s
                              else s);
                        s2 = (if action data = Some ''clear_extension_storage''
                              then clearExtensionStorage s1 else s1)
                    in showDisconnectedState b
                         (case message data of
                            None \<Rightarrow> ''Not connected to Notion''
                          | Some m \<Rightarrow> if m = [] then ''Not connected to Notion'' else m)
                         s2)
                 else showConnectedState b (workspace_name data) s))"

text \<open>The connection state the popup holds: the class of the status element.\<close>

definition confirmed :: "popup \<Rightarrow> bool" where
  "confirmed s = classList_contains (status_className s) ''connected''"

subsection \<open>Backend reachability\<close>



subsection \<open>Detecting a user that completed OAuth\<close>

definition checkOAuthCompletion :: "remote \<Rightarrow> popup \<Rightarrow> bool \<times> popup" where
  "checkOAuthCompletion r s =
     (case oauth_reply r of
        None \<Rightarrow> (False, s)
      | Some resp \<Rightarrow>
          (case completionData resp of
             None \<Rightarrow> (False, s)
           | Some c \<Rightarrow>
               if completion_status c = ''success''
               then (let s1 = setNotionUserId (completion_userId c) s;
                         s2 = s1\<lparr>background_messages := background_messages s1 @ [''clearOAuthState'']\<rparr>;
                         s3 = showMessage ''Successfully connected to Notion!'' MsgSuccess s2
                     in (True, s3\<lparr>scheduled_checks := Suc (scheduled_checks s3)\<rparr>))
               else (False, s)))"

text \<open>The test that \<open>checkOAuthCompletion\<close> makes on the answer of the background script.\<close>

definition oauth_completed :: "remote \<Rightarrow> bool" where
  "oauth_completed r =
     (case oauth_reply r of
        None \<Rightarrow> False
      | Some resp \<Rightarrow>
          (case completionData resp of
             None \<Rightarrow> False
           | Some c \<Rightarrow> completion_status c = ''success''))"

text \<open>The status check of the latest user id inside \<open>detectRealUser\<close>.\<close>

definition verify_latest_user :: "remote \<Rightarrow> string \<Rightarrow> popup \<Rightarrow> bool \<times> popup" where
  "verify_latest_user r latest s =
     (case user_status r latest of
        Ok statusData \<Rightarrow>
          if connected statusData then (True, setNotionUserId latest s) else (False, s)
      | NotOk \<Rightarrow> (False, s)
      | Threw \<Rightarrow> (False, s))"

text \<open>
  The hosted build goes on only when the latest user id differs from the user id of the
  popup.
\<close>

definition detectRealUser :: "build \<Rightarrow> remote \<Rightarrow> popup \<Rightarrow> bool \<times> popup" where
  "detectRealUser b r s =
     (case check_completion r of
        Ok data \<Rightarrow>
          (case latest_user_id data of
             None \<Rightarrow> (False, s)
           | Some latest \<Rightarrow>
               if has_users data \<and> latest \<noteq> [] then
                 (case b of
                    LocalBackend \<Rightarrow> verify_latest_user r latest s
                  | Hosted \<Rightarrow>
                      if Some latest \<noteq> userId s then verify_latest_user r latest s
                      else (False, s))
               else (False, s))
      | NotOk \<Rightarrow> (False, s)
      | Threw \<Rightarrow> (False, s))"

subsection \<open>Polling for OAuth completion\<close>

datatype session = Pending | Confirmed | TimedOut

text \<open>
  The interval of \<open>startOAuthCompletionPolling\<close> is \<open>Pending\<close> while it is set, \<open>Confirmed\<close> when
  it was cleared after a connected user was seen and \<open>TimedOut\<close> when it was cleared because
  the attempts ran out.
\<close>

definition connect_button_connected :: "popup \<Rightarrow> popup" where
  "connect_button_connected s =
     s\<lparr>connect_text := ConnectedToNotion, connect_disabled := True,
       connect_connecting := False, connect_connected := True\<rparr>"

definition connect_button_reset :: "popup \<Rightarrow> popup" where
  "connect_button_reset s =
     s\<lparr>connect_text := ConnectToNotion, connect_disabled := False,
       connect_connecting := False, connect_connected := False\<rparr>"

definition poll_timeout :: "nat \<Rightarrow> nat \<Rightarrow> popup \<Rightarrow> session \<times> nat \<times> popup" where
  "poll_timeout maxAttempts attempts s =
     (if maxAttempts \<le> attempts
      then (TimedOut, attempts,
            showMessage ''Connection timeout. Please try again.'' MsgError (connect_button_reset s))
      else (Pending, attempts, s))"

definition poll_catch :: "nat \<Rightarrow> nat \<Rightarrow> popup \<Rightarrow> session \<times> nat \<times> popup" where
  "poll_catch maxAttempts attempts s =
     (if maxAttempts \<le> attempts then (TimedOut, attempts, connect_button_reset s)
      else (Pending, attempts, s))"

text \<open>
  The end of a tick: the last status check of the popup's own user id, then the test of the
  attempts. A \<open>fetch\<close> that throws there is caught by the callback.
\<close>

definition poll_own_status ::
  "build \<Rightarrow> nat \<Rightarrow> remote \<Rightarrow> nat \<Rightarrow> popup \<Rightarrow> session \<times> nat \<times> popup" where
  "poll_own_status b maxAttempts r attempts s =
     (case userId s of
        None \<Rightarrow> poll_timeout maxAttempts attempts s
      | Some uid \<Rightarrow>
          if uid = [] then poll_timeout maxAttempts attempts s
          else
            (case user_status r uid of
               Threw \<Rightarrow> poll_catch maxAttempts attempts s
             | NotOk \<Rightarrow> poll_timeout maxAttempts attempts s
             | Ok data \<Rightarrow>
                 if connected data
                 then (Confirmed, attempts,
                       checkNotionConnection b (user_status r) (connect_button_connected s))
                 else poll_timeout maxAttempts attempts s))"

text \<open>
  One run of the interval callback; \<open>attempts0\<close> is the counter before the tick. The local
  build asks \<open>detectRealUser\<close> first and ignores what \<open>checkOAuthCompletion\<close> returns; the hosted
  build asks \<open>checkOAuthCompletion\<close> first and stops when it returns true.
\<close>

definition pollTick ::
  "build \<Rightarrow> nat \<Rightarrow> remote \<Rightarrow> nat \<Rightarrow> popup \<Rightarrow> session \<times> nat \<times> popup" where
  "pollTick b maxAttempts r attempts0 s =
     (let attempts = Suc attempts0 in
      case b of
        LocalBackend \<Rightarrow>
          (case detectRealUser b r s of
             (True, s1) \<Rightarrow>
               (Confirmed, attempts,
                checkNotionConnection b (user_status r) (connect_button_connected s1))
           | (False, s1) \<Rightarrow>
               (case checkOAuthCompletion r s1 of
                  (oauthCompleted, s2) \<Rightarrow> poll_own_status b maxAttempts r attempts s2))
      | Hosted \<Rightarrow>
          (case checkOAuthCompletion r s of
             (True, s1) \<Rightarrow>
               (Confirmed, attempts,
                checkNotionConnection b (user_status r) (connect_button_connected s1))
           | (False, s1) \<Rightarrow>
               (case detectRealUser b r s1 of
                  (True, s2) \<Rightarrow>
                    (Confirmed, attempts,
                     checkNotionConnection b (user_status r) (connect_button_connected s2))
                | (False, s2) \<Rightarrow> poll_own_status b maxAttempts r attempts s2)))"

text \<open>The interval fires once for every element of the list, until it is cleared.\<close>

fun runPolling ::
  "build \<Rightarrow> nat \<Rightarrow> remote list \<Rightarrow> nat \<Rightarrow> popup \<Rightarrow> session \<times> nat \<times> popup" where
  "runPolling b maxAttempts [] attempts s = (Pending, attempts, s)"
| "runPolling b maxAttempts (r # rs) attempts s =
     (case pollTick b maxAttempts r attempts s of
        (Pending, attempts', s') \<Rightarrow> runPolling b maxAttempts rs attempts' s'
      | (Confirmed, attempts', s') \<Rightarrow> (Confirmed, attempts', s')
      | (TimedOut, attempts', s') \<Rightarrow> (TimedOut, attempts', s'))"



subsection \<open>Thresholds of \<open>init\<close>\<close>



subsection \<open>Repeated connection checks\<close>

text \<open>One connection check for every element of the list, each with its own answers.\<close>

definition checkNotionConnection_all ::
  "build \<Rightarrow> (string \<Rightarrow> status_data response) list \<Rightarrow> popup \<Rightarrow> popup" where
  "checkNotionConnection_all b statuses s = fold (checkNotionConnection b) statuses s"

subsection \<open>Example states and answers\<close>

text \<open>A popup that shows the connected state for a stored Notion user id, with a validated key.\<close>

definition linked_popup :: popup where
  "linked_popup =
     \<lparr>userId = Some ''c425202e-f79f-40e2-98e4-aecacac9ec4e'',
      backendConnected = True,
      fingerprint = ''data:image/png;base64,iVBORw0KGgoAAAANSUhEUgAAASwAAACWCAYAAABkW7XS'',
      runtime_id = Some ''kbfnbcaeplbcioakkpcpgfkobkghlhen'',
      sync_userId = Some ''c425202e-f79f-40e2-98e4-aecacac9ec4e'',
      sync_openaiApiKey = Some ''sk-test-key'',
      sync_openaiKeyValid = True,
      local_storage = Map.empty,
      status_className = ''status connected'',
      status_was_connected = True,
      status_hidden = True,
      refresh_hidden = True,
      connect_text = ConnectedToNotion,
      connect_disabled = True,
      connect_connected = True,
      connect_connecting = False,
      summarize_disabled = False,
      saveSettings_hidden = True,
      saveSettings_text = SaveSettings,
      saveSettings_disabled = False,
      openaiKey_value = ''sk-test-key'',
      openaiKey_masked = False,
      shown_message = None,
      background_messages = [],
      scheduled_checks = 0\<rparr>"

text \<open>The same popup after the backend was found unreachable by the periodic test.\<close>

definition backend_down_popup :: popup where
  "backend_down_popup = linked_popup\<lparr>backendConnected := False\<rparr>"

text \<open>A popup without a stored user id, holding the generated placeholder, while connecting.\<close>

definition unlinked_popup :: popup where
  "unlinked_popup =
     \<lparr>userId = Some ''ZGF0YTppbWFnZS9w'',
      backendConnected = True,
      fingerprint = ''data:image/png;base64,iVBORw0KGgoAAAANSUhEUgAAASwAAACWCAYAAABkW7XS'',
      runtime_id = Some ''kbfnbcaeplbcioakkpcpgfkobkghlhen'',
      sync_userId = None,
      sync_openaiApiKey = Some ''sk-test-key'',
      sync_openaiKeyValid = True,
      local_storage = Map.empty,
      status_className = ''status disconnected'',
      status_was_connected = False,
      status_hidden = True,
      refresh_hidden = True,
      connect_text = Connecting,
      connect_disabled = True,
      connect_connected = False,
      connect_connecting = True,
      summarize_disabled = True,
      saveSettings_hidden = True,
      saveSettings_text = SaveSettings,
      saveSettings_disabled = False,
      openaiKey_value = ''sk-test-key'',
      openaiKey_masked = False,
      shown_message = None,
      background_messages = [],
      scheduled_checks = 0\<rparr>"

definition status_http_error :: "string \<Rightarrow> status_data response" where
  "status_http_error u = NotOk"

definition status_network_error :: "string \<Rightarrow> status_data response" where
  "status_network_error u = Threw"

definition not_connected_data :: status_data where
  "not_connected_data =
     \<lparr>connected = False, reason = None, action = None, message = None, workspace_name = None\<rparr>"

definition status_not_connected :: "string \<Rightarrow> status_data response" where
  "status_not_connected u = Ok not_connected_data"

definition status_invalid_token :: "string \<Rightarrow> status_data response" where
  "status_invalid_token u = Ok (not_connected_data\<lparr>reason := Some ''invalid_token''\<rparr>)"

definition status_u9_connected :: "string \<Rightarrow> status_data response" where
  "status_u9_connected u =
     (if u = ''u-9''
      then Ok \<lparr>connected = True, reason = None, action = None, message = None,
               workspace_name = Some ''Acme''\<rparr>
      else Ok not_connected_data)"


definition nobody_connected :: remote where
  "nobody_connected =
     \<lparr>backend_root = Ok (),
      check_completion = Ok \<lparr>has_users = False, latest_user_id = None\<rparr>,
      user_status = status_not_connected,
      oauth_reply = Some \<lparr>isInProgress = True, completionData = None\<rparr>\<rparr>"

definition u9_completed :: remote where
  "u9_completed =
     \<lparr>backend_root = Ok (),
      check_completion = Ok \<lparr>has_users = True, latest_user_id = Some ''u-9''\<rparr>,
      user_status = status_u9_connected,
      oauth_reply = Some \<lparr>isInProgress = True, completionData = None\<rparr>\<rparr>"

section \<open>Properties\<close>

subsection \<open>Class names\<close>

lemma status_connected_class [simp]:
  "classList_contains ''status connected'' ''connected'' = True"
  by code_simp

lemma status_disconnected_class [simp]:
  "classList_contains ''status disconnected'' ''connected'' = False"
  by code_simp

lemma status_includes [simp]:
  "str_includes ''status connected'' ''connected''"
  "str_includes ''status disconnected'' ''connected''"
  by code_simp+

subsection \<open>The stored key\<close>

lemma hasValidOpenaiKey_cong:
  "sync_openaiApiKey s = sync_openaiApiKey t \<Longrightarrow> sync_openaiKeyValid s = sync_openaiKeyValid t
   \<Longrightarrow> hasValidOpenaiKey s = hasValidOpenaiKey t"
  by (simp add: hasValidOpenaiKey_def split: option.splits)

lemma hasValidOpenaiKey_flag: "hasValidOpenaiKey s \<Longrightarrow> sync_openaiKeyValid s"
  by (simp add: hasValidOpenaiKey_def split: option.splits)

lemma hasValidOpenaiKey_cleared: "sync_openaiApiKey s = None \<Longrightarrow> \<not> hasValidOpenaiKey s"
  by (simp add: hasValidOpenaiKey_def)

lemma hasValidOpenaiKey_update [simp]:
  "hasValidOpenaiKey (s\<lparr>summarize_disabled := b\<rparr>) = hasValidOpenaiKey s"
  "hasValidOpenaiKey (s\<lparr>connect_disabled := b\<rparr>) = hasValidOpenaiKey s"
  "hasValidOpenaiKey (s\<lparr>connect_text := c\<rparr>) = hasValidOpenaiKey s"
  "hasValidOpenaiKey (s\<lparr>connect_connected := b\<rparr>) = hasValidOpenaiKey s"
  "hasValidOpenaiKey (s\<lparr>connect_connecting := b\<rparr>) = hasValidOpenaiKey s"
  "hasValidOpenaiKey (s\<lparr>saveSettings_hidden := b\<rparr>) = hasValidOpenaiKey s"
  "hasValidOpenaiKey (s\<lparr>saveSettings_text := x\<rparr>) = hasValidOpenaiKey s"
  "hasValidOpenaiKey (s\<lparr>saveSettings_disabled := b\<rparr>) = hasValidOpenaiKey s"
  "hasValidOpenaiKey (s\<lparr>status_className := n\<rparr>) = hasValidOpenaiKey s"
  "hasValidOpenaiKey (s\<lparr>backendConnected := b\<rparr>) = hasValidOpenaiKey s"
  by (rule hasValidOpenaiKey_cong, simp, simp)+

subsection \<open>The placeholder id\<close>

lemma length_btoa: "length (btoa s) = 4 * ((length s + 2) div 3)"
proof (induction s rule: btoa.induct)
  case (1 a b c rest)
  have "(length (a # b # c # rest) + 2) div 3 = Suc ((length rest + 2) div 3)"
    by simp
  with 1 show ?case by simp
qed simp_all

lemma extensionId_nonempty: "extensionId s \<noteq> []"
  by (simp add: extensionId_def split: option.splits)

lemma temporary_userId_nonempty: "temporary_userId s \<noteq> []"
proof -
  have "fingerprint s @ extensionId s \<noteq> []"
    using extensionId_nonempty by simp
  then have "0 < length (fingerprint s @ extensionId s)"
    by simp
  then have "0 < length (btoa (fingerprint s @ extensionId s))"
    unfolding length_btoa by presburger
  then show ?thesis
    by (auto simp add: temporary_userId_def)
qed

lemma temporary_userId_cong:
  "fingerprint s = fingerprint t \<Longrightarrow> runtime_id s = runtime_id t
   \<Longrightarrow> temporary_userId s = temporary_userId t"
  by (simp add: temporary_userId_def extensionId_def)


subsection \<open>What each function changes\<close>

lemma updateUIState_frame:
  "userId (updateUIState b s) = userId s"
  "sync_userId (updateUIState b s) = sync_userId s"
  "sync_openaiApiKey (updateUIState b s) = sync_openaiApiKey s"
  "sync_openaiKeyValid (updateUIState b s) = sync_openaiKeyValid s"
  "local_storage (updateUIState b s) = local_storage s"
  "status_className (updateUIState b s) = status_className s"
  "status_was_connected (updateUIState b s) = status_was_connected s"
  "backendConnected (updateUIState b s) = backendConnected s"
  "fingerprint (updateUIState b s) = fingerprint s"
  "runtime_id (updateUIState b s) = runtime_id s"
  "shown_message (updateUIState b s) = shown_message s"
  "status_hidden (updateUIState b s) = status_hidden s"
  "refresh_hidden (updateUIState b s) = refresh_hidden s"
  "openaiKey_value (updateUIState b s) = openaiKey_value s"
  "background_messages (updateUIState b s) = background_messages s"
  "scheduled_checks (updateUIState b s) = scheduled_checks s"
  "openaiKey_masked (updateUIState b s) = openaiKey_masked s"
  "popup.more (updateUIState b s) = popup.more s"
  by (simp_all add: updateUIState_def updateSaveSettingsVisibility_def Let_def split: build.split)

lemma updateUIState_buttons:
  "summarize_disabled (updateUIState b s) =
     (\<not> (backendConnected s \<and> confirmed s \<and> hasValidOpenaiKey s))"
  "connect_disabled (updateUIState b s) =
     (if backendConnected s \<and> confirmed s then True
      else if connect_connecting s then connect_disabled s else False)"
  "connect_text (updateUIState b s) =
     (if backendConnected s \<and> confirmed s then ConnectedToNotion
      else if connect_connecting s then connect_text s else ConnectToNotion)"
  "connect_connecting (updateUIState b s) =
     (if backendConnected s \<and> confirmed s then False else connect_connecting s)"
  "connect_connected (updateUIState b s) =
     (if backendConnected s \<and> confirmed s then True
      else if connect_connecting s then connect_connected s else False)"
  by (auto simp add: updateUIState_def updateSaveSettingsVisibility_def Let_def confirmed_def
        split: build.split)

lemma updateUIState_save_button:
  "saveSettings_hidden (updateUIState b s) =
     (case b of
        LocalBackend \<Rightarrow> hasValidOpenaiKey s \<and> str_includes (status_className s) ''connected''
      | Hosted \<Rightarrow> False)"
  "saveSettings_text (updateUIState b s) =
     (case b of
        LocalBackend \<Rightarrow> saveSettings_text s
      | Hosted \<Rightarrow>
          if hasValidOpenaiKey s then
            (if openaiKey_masked s then ApiKeySaved
             else if trim (openaiKey_value s) \<noteq> []
                     \<and> Some (trim (openaiKey_value s)) \<noteq> sync_openaiApiKey s
             then UpdateApiKey
             else if trim (openaiKey_value s) = [] then EnterNewApiKey
             else ApiKeyUnchanged)
          else SaveSettings)"
  "saveSettings_disabled (updateUIState b s) =
     (case b of
        LocalBackend \<Rightarrow> saveSettings_disabled s
      | Hosted \<Rightarrow>
          if hasValidOpenaiKey s then
            (if openaiKey_masked s then True
             else if trim (openaiKey_value s) \<noteq> []
                     \<and> Some (trim (openaiKey_value s)) \<noteq> sync_openaiApiKey s
             then False
             else True)
          else trim (openaiKey_value s) = [])"
  by (auto simp add: updateUIState_def updateSaveSettingsVisibility_def Let_def
        split: build.split)

lemma updateUIState_confirmed: "confirmed (updateUIState b s) = confirmed s"
  by (simp add: confirmed_def updateUIState_frame)

lemma updateUIState_hasValidOpenaiKey: "hasValidOpenaiKey (updateUIState b s) = hasValidOpenaiKey s"
  by (rule hasValidOpenaiKey_cong) (simp_all add: updateUIState_frame)

lemma updateUIState_idem: "updateUIState b (updateUIState b s) = updateUIState b s"
  by (rule popup.equality)
     (simp_all add: updateUIState_frame updateUIState_buttons updateUIState_confirmed
        updateUIState_hasValidOpenaiKey updateUIState_save_button split: build.split)

lemma hide_error_frame:
  "userId (hide_error s) = userId s"
  "sync_userId (hide_error s) = sync_userId s"
  "sync_openaiApiKey (hide_error s) = sync_openaiApiKey s"
  "sync_openaiKeyValid (hide_error s) = sync_openaiKeyValid s"
  "local_storage (hide_error s) = local_storage s"
  "status_className (hide_error s) = status_className s"
  "status_was_connected (hide_error s) = status_was_connected s"
  "backendConnected (hide_error s) = backendConnected s"
  "fingerprint (hide_error s) = fingerprint s"
  "runtime_id (hide_error s) = runtime_id s"
  by (simp_all add: hide_error_def split: option.splits prod.splits msg_type.splits)

lemma generateUserId_frame:
  "sync_userId (generateUserId s) = sync_userId s"
  "sync_openaiApiKey (generateUserId s) = sync_openaiApiKey s"
  "sync_openaiKeyValid (generateUserId s) = sync_openaiKeyValid s"
  "local_storage (generateUserId s) = local_storage s"
  "status_className (generateUserId s) = status_className s"
  "status_was_connected (generateUserId s) = status_was_connected s"
  "backendConnected (generateUserId s) = backendConnected s"
  "fingerprint (generateUserId s) = fingerprint s"
  "runtime_id (generateUserId s) = runtime_id s"
  by (simp_all add: generateUserId_def loadStoredUserId_def)

lemma generateUserId_fresh:
  "sync_userId s = None \<Longrightarrow> userId (generateUserId s) = Some (temporary_userId s)"
  by (simp add: generateUserId_def loadStoredUserId_def truthy_def)

lemma showDisconnectedState_fields:
  "userId (showDisconnectedState b why s) = userId s"
  "sync_userId (showDisconnectedState b why s) = sync_userId s"
  "sync_openaiApiKey (showDisconnectedState b why s) = None"
  "sync_openaiKeyValid (showDisconnectedState b why s) = False"
  "local_storage (showDisconnectedState b why s) = local_storage s"
  "status_className (showDisconnectedState b why s) = ''status disconnected''"
  "status_was_connected (showDisconnectedState b why s) = False"
  "backendConnected (showDisconnectedState b why s) = backendConnected s"
  "fingerprint (showDisconnectedState b why s) = fingerprint s"
  "runtime_id (showDisconnectedState b why s) = runtime_id s"
  by (simp_all add: showDisconnectedState_def Let_def clearStoredSettings_def
        updateUIState_frame hide_error_frame)

lemma forceDisconnectedState_fields:
  "userId (forceDisconnectedState b s) = Some (temporary_userId s)"
  "sync_userId (forceDisconnectedState b s) = None"
  "sync_openaiApiKey (forceDisconnectedState b s) = None"
  "sync_openaiKeyValid (forceDisconnectedState b s) = False"
  "local_storage (forceDisconnectedState b s) = local_storage s"
  "status_className (forceDisconnectedState b s) = ''status disconnected''"
  "status_was_connected (forceDisconnectedState b s) = False"
  "backendConnected (forceDisconnectedState b s) = backendConnected s"
  "fingerprint (forceDisconnectedState b s) = fingerprint s"
  "runtime_id (forceDisconnectedState b s) = runtime_id s"
  by (simp_all add: forceDisconnectedState_def Let_def clearStoredSettings_def
        updateUIState_frame generateUserId_frame generateUserId_fresh
        temporary_userId_def extensionId_def)

lemma clear_invalid_token_fields:
  "userId (clear_invalid_token b s) = Some (temporary_userId s)"
  "sync_userId (clear_invalid_token b s) = None"
  "fingerprint (clear_invalid_token b s) = fingerprint s"
  "runtime_id (clear_invalid_token b s) = runtime_id s"
  "backendConnected (clear_invalid_token b s) = backendConnected s"
  by (simp_all add: clear_invalid_token_def Let_def clearStoredSettings_def
        generateUserId_frame generateUserId_fresh temporary_userId_def extensionId_def
        split: build.split)

lemma clearExtensionStorage_fields:
  "userId (clearExtensionStorage s) = None"
  "sync_userId (clearExtensionStorage s) = None"
  "fingerprint (clearExtensionStorage s) = fingerprint s"
  "runtime_id (clearExtensionStorage s) = runtime_id s"
  "backendConnected (clearExtensionStorage s) = backendConnected s"
  by (simp_all add: clearExtensionStorage_def)

lemma showConnectedState_fields:
  "userId (showConnectedState b w s) = userId s"
  "sync_userId (showConnectedState b w s) = sync_userId s"
  "sync_openaiApiKey (showConnectedState b w s) = sync_openaiApiKey s"
  "sync_openaiKeyValid (showConnectedState b w s) = sync_openaiKeyValid s"
  "local_storage (showConnectedState b w s) = local_storage s"
  "status_className (showConnectedState b w s) = ''status connected''"
  "status_was_connected (showConnectedState b w s) = True"
  "backendConnected (showConnectedState b w s) = backendConnected s"
  "fingerprint (showConnectedState b w s) = fingerprint s"
  "runtime_id (showConnectedState b w s) = runtime_id s"
  by (simp_all add: showConnectedState_def Let_def showMessage_def
        updateUIState_frame hide_error_frame)

lemma showConnectedState_summarize:
  "summarize_disabled (showConnectedState b w s) = (\<not> (backendConnected s \<and> hasValidOpenaiKey s))"
proof -
  let ?s1 = "(hide_error (s\<lparr>status_hidden := True, refresh_hidden := True\<rparr>))
               \<lparr>status_className := ''status connected''\<rparr>"
  have "hasValidOpenaiKey ?s1 = hasValidOpenaiKey s"
    by (rule hasValidOpenaiKey_cong) (simp_all add: hide_error_frame)
  moreover have "backendConnected ?s1 = backendConnected s" "confirmed ?s1"
    by (simp_all add: hide_error_frame confirmed_def)
  ultimately have "summarize_disabled (updateUIState b ?s1)
                   = (\<not> (backendConnected s \<and> hasValidOpenaiKey s))"
    by (simp add: updateUIState_buttons)
  then show ?thesis
    by (simp add: showConnectedState_def Let_def showMessage_def)
qed

lemma showDisconnectedState_not_confirmed: "\<not> confirmed (showDisconnectedState b why s)"
  by (simp add: confirmed_def showDisconnectedState_fields)


lemma showConnectedState_confirmed: "confirmed (showConnectedState b w s)"
  by (simp add: confirmed_def showConnectedState_fields)

lemma checkNotionConnection_Threw:
  "userId s = Some uid \<Longrightarrow> uid \<noteq> [] \<Longrightarrow> status uid = Threw
   \<Longrightarrow> checkNotionConnection b status s = showDisconnectedState b ''Error checking connection'' s"
  by (simp add: checkNotionConnection_def)

lemma checkNotionConnection_NotOk:
  "userId s = Some uid \<Longrightarrow> uid \<noteq> [] \<Longrightarrow> status uid = NotOk
   \<Longrightarrow> checkNotionConnection b status s =
         showDisconnectedState b ''Error checking connection'' (forceDisconnectedState b s)"
  by (simp add: checkNotionConnection_def)

lemma checkNotionConnection_connected:
  "userId s = Some uid \<Longrightarrow> uid \<noteq> [] \<Longrightarrow> status uid = Ok d \<Longrightarrow> connected d
   \<Longrightarrow> checkNotionConnection b status s = showConnectedState b (workspace_name d) s"
  by (simp add: checkNotionConnection_def)


lemma checkNotionConnection_const:
  "fingerprint (checkNotionConnection b status s) = fingerprint s"
  "runtime_id (checkNotionConnection b status s) = runtime_id s"
  "backendConnected (checkNotionConnection b status s) = backendConnected s"
  by (simp_all add: checkNotionConnection_def Let_def showDisconnectedState_fields
        showConnectedState_fields forceDisconnectedState_fields clear_invalid_token_fields
        clearExtensionStorage_fields
        split: option.split response.split)

subsection \<open>Example states\<close>

lemma linked_popup_fields:
  "userId linked_popup = Some ''c425202e-f79f-40e2-98e4-aecacac9ec4e''"
  "sync_userId linked_popup = Some ''c425202e-f79f-40e2-98e4-aecacac9ec4e''"
  "backendConnected linked_popup"
  "confirmed linked_popup"
  "hasValidOpenaiKey linked_popup"
  "sync_openaiKeyValid linked_popup"
  by (simp_all add: linked_popup_def confirmed_def hasValidOpenaiKey_def) code_simp

lemma backend_down_popup_fields:
  "userId backend_down_popup = userId linked_popup"
  "sync_userId backend_down_popup = sync_userId linked_popup"
  "\<not> backendConnected backend_down_popup"
  "confirmed backend_down_popup"
  "hasValidOpenaiKey backend_down_popup"
  "sync_openaiKeyValid backend_down_popup"
  using linked_popup_fields
  by (simp_all add: backend_down_popup_def confirmed_def)

subsection \<open>Enabling the summarize button\<close>

text \<open>
  Claim C6, as the code has it: after \<open>updateUIState\<close> the summarize button is enabled exactly
  when the backend is reachable (\<open>backendConnected\<close>), the status element carries the class
  \<open>connected\<close>, and a key that is not blank is stored together with the flag \<open>openaiKeyValid\<close>.
\<close>

theorem summarize_enabled_iff:
  "(\<not> summarize_disabled (updateUIState b s)) =
     (backendConnected s \<and> confirmed s \<and> hasValidOpenaiKey s)"
  by (auto simp add: updateUIState_buttons)

theorem summarize_enabled_iff_witness:
  "\<not> summarize_disabled (updateUIState LocalBackend linked_popup)"
  using summarize_enabled_iff [of LocalBackend linked_popup] by (simp add: linked_popup_fields)

text \<open>
  Claim C6 as stated fails: with the connected class and a validated key, the button stays
  disabled while the backend is flagged unreachable.
\<close>

theorem summarize_needs_backend_counterexample:
  "(\<not> summarize_disabled (updateUIState LocalBackend backend_down_popup)) \<noteq>
     (confirmed backend_down_popup \<and> sync_openaiKeyValid backend_down_popup)"
  by (simp add: updateUIState_buttons backend_down_popup_fields)

text \<open>
  Claim C7, as the code has it: two runs of \<open>updateUIState\<close> on states that agree on the
  backend flag, on the class of the status element and on the stored key enable or disable
  the summarize button alike, whatever the rest of the state is; a second run changes
  nothing; and a run writes the summarize, connect and save-settings buttons only.
\<close>

theorem updateUIState_determined:
  assumes "backendConnected s = backendConnected t"
      and "confirmed s = confirmed t"
      and "hasValidOpenaiKey s = hasValidOpenaiKey t"
  shows "summarize_disabled (updateUIState b s) = summarize_disabled (updateUIState b t)
       \<and> updateUIState b (updateUIState b s) = updateUIState b s
       \<and> updateUIState b s =
           s\<lparr>summarize_disabled := summarize_disabled (updateUIState b s),
             connect_disabled := connect_disabled (updateUIState b s),
             connect_text := connect_text (updateUIState b s),
             connect_connected := connect_connected (updateUIState b s),
             connect_connecting := connect_connecting (updateUIState b s),
             saveSettings_hidden := saveSettings_hidden (updateUIState b s),
             saveSettings_text := saveSettings_text (updateUIState b s),
             saveSettings_disabled := saveSettings_disabled (updateUIState b s)\<rparr>"
proof -
  have "summarize_disabled (updateUIState b s) = summarize_disabled (updateUIState b t)"
    using assms by (simp add: updateUIState_buttons)
  moreover have "updateUIState b (updateUIState b s) = updateUIState b s"
    by (rule updateUIState_idem)
  moreover have "updateUIState b s =
           s\<lparr>summarize_disabled := summarize_disabled (updateUIState b s),
             connect_disabled := connect_disabled (updateUIState b s),
             connect_text := connect_text (updateUIState b s),
             connect_connected := connect_connected (updateUIState b s),
             connect_connecting := connect_connecting (updateUIState b s),
             saveSettings_hidden := saveSettings_hidden (updateUIState b s),
             saveSettings_text := saveSettings_text (updateUIState b s),
             saveSettings_disabled := saveSettings_disabled (updateUIState b s)\<rparr>"
    by (rule popup.equality) (simp_all add: updateUIState_frame)
  ultimately show ?thesis
    by blast
qed

theorem updateUIState_determined_witness:
  "summarize_disabled (updateUIState LocalBackend linked_popup)
     = summarize_disabled (updateUIState LocalBackend (linked_popup\<lparr>connect_connecting := True\<rparr>))"
proof -
  have "hasValidOpenaiKey linked_popup
        = hasValidOpenaiKey (linked_popup\<lparr>connect_connecting := True\<rparr>)"
    by simp
  then show ?thesis
    using updateUIState_determined
            [of linked_popup "linked_popup\<lparr>connect_connecting := True\<rparr>" LocalBackend]
    by (simp add: confirmed_def)
qed

text \<open>
  Claim C7 as stated fails: the same user id, the same class of the status element and the
  same stored key give different outputs when the backend flag differs.
\<close>

theorem updateUIState_backend_counterexample:
  "userId linked_popup = userId backend_down_popup
   \<and> sync_userId linked_popup = sync_userId backend_down_popup
   \<and> confirmed linked_popup = confirmed backend_down_popup
   \<and> hasValidOpenaiKey linked_popup = hasValidOpenaiKey backend_down_popup
   \<and> summarize_disabled (updateUIState LocalBackend linked_popup)
       \<noteq> summarize_disabled (updateUIState LocalBackend backend_down_popup)"
  by (simp add: updateUIState_buttons backend_down_popup_fields linked_popup_fields)

subsection \<open>The stored key after a disconnection\<close>



lemma checkNotionConnection_http_error_linked:
  "checkNotionConnection b status_http_error linked_popup =
     showDisconnectedState b ''Error checking connection'' (forceDisconnectedState b linked_popup)"
  by (rule checkNotionConnection_NotOk [of _ "''c425202e-f79f-40e2-98e4-aecacac9ec4e''"])
     (simp_all add: linked_popup_fields status_http_error_def)




subsection \<open>Connection checks whose status query fails\<close>

lemma checkNotionConnection_all_Cons:
  "checkNotionConnection_all b (st # sts) s = checkNotionConnection_all b sts (checkNotionConnection b st s)"
  by (simp add: checkNotionConnection_all_def)

lemma checkNotionConnection_all_snoc:
  "checkNotionConnection_all b (sts @ [st]) s = checkNotionConnection b st (checkNotionConnection_all b sts s)"
  by (simp add: checkNotionConnection_all_def)

lemma network_errors_keep_id:
  "userId s = Some uid \<Longrightarrow> uid \<noteq> [] \<Longrightarrow> \<forall>st\<in>set sts. st uid = Threw
   \<Longrightarrow> userId (checkNotionConnection_all b sts s) = Some uid
       \<and> sync_userId (checkNotionConnection_all b sts s) = sync_userId s"
proof (induction sts arbitrary: s)
  case Nil
  then show ?case by (simp add: checkNotionConnection_all_def)
next
  case (Cons st sts)
  let ?s' = "checkNotionConnection b st s"
  have step: "?s' = showDisconnectedState b ''Error checking connection'' s"
    using Cons.prems by (intro checkNotionConnection_Threw [of s uid]) simp_all
  have "userId ?s' = Some uid" "sync_userId ?s' = sync_userId s"
    using Cons.prems(1) by (simp_all add: step showDisconnectedState_fields)
  moreover have "\<forall>st\<in>set sts. st uid = Threw"
    using Cons.prems(3) by simp
  ultimately show ?case
    using Cons.IH [of ?s'] Cons.prems(2) by (simp add: checkNotionConnection_all_Cons)
qed

lemma http_errors_reset_id:
  "userId s = Some uid \<Longrightarrow> uid \<noteq> [] \<Longrightarrow> \<forall>st\<in>set sts. \<forall>u. st u = NotOk \<Longrightarrow> sts \<noteq> []
   \<Longrightarrow> userId (checkNotionConnection_all b sts s) = Some (temporary_userId s)
       \<and> sync_userId (checkNotionConnection_all b sts s) = None"
proof (induction sts arbitrary: s uid)
  case Nil
  then show ?case by simp
next
  case (Cons st sts)
  let ?s' = "checkNotionConnection b st s"
  have "st uid = NotOk"
    using Cons.prems(3) by simp
  then have step: "?s' = showDisconnectedState b ''Error checking connection'' (forceDisconnectedState b s)"
    using Cons.prems by (intro checkNotionConnection_NotOk [of s uid]) simp_all
  have id: "userId ?s' = Some (temporary_userId s)" and sync: "sync_userId ?s' = None"
    by (simp_all add: step showDisconnectedState_fields forceDisconnectedState_fields)
  have same: "temporary_userId ?s' = temporary_userId s"
    by (rule temporary_userId_cong) (simp_all add: checkNotionConnection_const)
  show ?case
  proof (cases "sts = []")
    case True
    then show ?thesis
      using id sync by (simp add: checkNotionConnection_all_def)
  next
    case False
    have "\<forall>st\<in>set sts. \<forall>u. st u = NotOk"
      using Cons.prems(3) by simp
    then show ?thesis
      using Cons.IH [of ?s' "temporary_userId s"] id False same temporary_userId_nonempty [of s]
      by (simp add: checkNotionConnection_all_Cons)
  qed
qed

lemma failed_check_not_confirmed:
  assumes "userId s = Some uid" "uid \<noteq> []" "st uid = Threw \<or> st uid = NotOk"
  shows "\<not> confirmed (checkNotionConnection b st s)"
    and "\<not> hasValidOpenaiKey (checkNotionConnection b st s)"
  using assms checkNotionConnection_Threw [of s uid st] checkNotionConnection_NotOk [of s uid st]
  by (auto simp add: showDisconnectedState_not_confirmed hasValidOpenaiKey_cleared
        showDisconnectedState_fields)

text \<open>
  Claim C1, as the code has it: in a sequence of connection checks whose status queries all
  throw, the user id of the popup and the stored user id stay as they are, and the popup
  ends outside the connected state with the stored key removed; when the queries all
  answer with a status that is not ok, the stored user id is removed as well and the
  popup holds the generated placeholder.
\<close>

theorem failed_status_queries_effect:
  assumes "userId s = Some uid" and "uid \<noteq> []" and "statuses \<noteq> []"
  shows "((\<forall>st\<in>set statuses. \<forall>u. st u = Threw) \<longrightarrow>
            userId (checkNotionConnection_all b statuses s) = Some uid
          \<and> sync_userId (checkNotionConnection_all b statuses s) = sync_userId s
          \<and> \<not> confirmed (checkNotionConnection_all b statuses s)
          \<and> \<not> hasValidOpenaiKey (checkNotionConnection_all b statuses s))
       \<and> ((\<forall>st\<in>set statuses. \<forall>u. st u = NotOk) \<longrightarrow>
            userId (checkNotionConnection_all b statuses s) = Some (temporary_userId s)
          \<and> sync_userId (checkNotionConnection_all b statuses s) = None
          \<and> \<not> confirmed (checkNotionConnection_all b statuses s)
          \<and> \<not> hasValidOpenaiKey (checkNotionConnection_all b statuses s))"
proof -
  obtain sts st where split: "statuses = sts @ [st]"
    using assms(3) by (cases statuses rule: rev_cases) auto
  let ?mid = "checkNotionConnection_all b sts s"
  have last: "checkNotionConnection_all b statuses s = checkNotionConnection b st ?mid"
    by (simp add: split checkNotionConnection_all_snoc)
  have threw: ?thesis if all: "\<forall>st\<in>set statuses. \<forall>u. st u = Threw"
  proof -
    have "\<forall>st\<in>set statuses. st uid = Threw" "\<forall>st\<in>set sts. st uid = Threw" "st uid = Threw"
      using all by (simp_all add: split)
    then have "userId (checkNotionConnection_all b statuses s) = Some uid
        \<and> sync_userId (checkNotionConnection_all b statuses s) = sync_userId s"
      and mid: "userId ?mid = Some uid"
      using network_errors_keep_id [OF assms(1,2), of statuses]
        network_errors_keep_id [OF assms(1,2), of sts] by simp_all
    moreover have "\<not> confirmed (checkNotionConnection b st ?mid)"
      "\<not> hasValidOpenaiKey (checkNotionConnection b st ?mid)"
      using failed_check_not_confirmed [OF mid assms(2), of st] \<open>st uid = Threw\<close> by simp_all
    moreover have "\<not> (\<forall>st\<in>set statuses. \<forall>u. st u = NotOk)"
      using all by (auto simp add: split)
    ultimately show ?thesis
      by (simp add: last all)
  qed
  have notok: ?thesis if all: "\<forall>st\<in>set statuses. \<forall>u. st u = NotOk"
  proof -
    have ids: "userId (checkNotionConnection_all b statuses s) = Some (temporary_userId s)
        \<and> sync_userId (checkNotionConnection_all b statuses s) = None"
      using http_errors_reset_id [OF assms(1,2) all assms(3)] .
    have "\<exists>v. userId ?mid = Some v \<and> v \<noteq> []"
    proof (cases "sts = []")
      case True
      then show ?thesis
        using assms by (simp add: checkNotionConnection_all_def)
    next
      case False
      have "\<forall>st\<in>set sts. \<forall>u. st u = NotOk"
        using all by (simp add: split)
      then show ?thesis
        using http_errors_reset_id [OF assms(1,2) _ False] temporary_userId_nonempty [of s]
        by simp
    qed
    then obtain v where mid: "userId ?mid = Some v" "v \<noteq> []"
      by blast
    have "st v = NotOk"
      using all by (simp add: split)
    then have "\<not> confirmed (checkNotionConnection b st ?mid)"
      "\<not> hasValidOpenaiKey (checkNotionConnection b st ?mid)"
      using failed_check_not_confirmed [OF mid, of st] by simp_all
    moreover have "\<not> (\<forall>st\<in>set statuses. \<forall>u. st u = Threw)"
      using all by (auto simp add: split)
    ultimately show ?thesis
      using ids by (simp add: last all)
  qed
  show ?thesis
    using threw notok by blast
qed

theorem failed_status_queries_effect_witness:
  "userId (checkNotionConnection_all LocalBackend [status_network_error, status_network_error] linked_popup)
     = Some ''c425202e-f79f-40e2-98e4-aecacac9ec4e''
   \<and> sync_userId (checkNotionConnection_all LocalBackend [status_network_error, status_network_error] linked_popup)
     = Some ''c425202e-f79f-40e2-98e4-aecacac9ec4e''
   \<and> \<not> confirmed (checkNotionConnection_all LocalBackend [status_network_error, status_network_error] linked_popup)
   \<and> sync_userId (checkNotionConnection_all LocalBackend [status_http_error, status_http_error] linked_popup) = None
   \<and> \<not> confirmed (checkNotionConnection_all LocalBackend [status_http_error, status_http_error] linked_popup)"
  using failed_status_queries_effect
          [of linked_popup "''c425202e-f79f-40e2-98e4-aecacac9ec4e''"
              "[status_network_error, status_network_error]" LocalBackend]
        failed_status_queries_effect
          [of linked_popup "''c425202e-f79f-40e2-98e4-aecacac9ec4e''"
              "[status_http_error, status_http_error]" LocalBackend]
  by (simp add: linked_popup_fields status_network_error_def status_http_error_def)

text \<open>
  Claim C1 as stated fails: one failed status query takes a connected popup out of the
  connected state, and a status that is not ok also removes the stored user id.
\<close>

theorem failed_status_query_demotes_counterexample:
  "confirmed linked_popup
   \<and> \<not> confirmed (checkNotionConnection LocalBackend status_network_error linked_popup)
   \<and> \<not> confirmed (checkNotionConnection LocalBackend status_http_error linked_popup)
   \<and> sync_userId (checkNotionConnection LocalBackend status_http_error linked_popup) = None
   \<and> checkNotionConnection LocalBackend status_http_error linked_popup \<noteq> linked_popup"
proof -
  have a: "checkNotionConnection LocalBackend status_network_error linked_popup
           = showDisconnectedState LocalBackend ''Error checking connection'' linked_popup"
    by (rule checkNotionConnection_Threw [of _ "''c425202e-f79f-40e2-98e4-aecacac9ec4e''"])
       (simp_all add: linked_popup_fields status_network_error_def)
  have b: "sync_userId (checkNotionConnection LocalBackend status_http_error linked_popup) = None"
    by (simp add: checkNotionConnection_http_error_linked showDisconnectedState_fields
          forceDisconnectedState_fields)
  then have "sync_userId (checkNotionConnection LocalBackend status_http_error linked_popup)
             \<noteq> sync_userId linked_popup"
    by (simp add: linked_popup_fields)
  then have "checkNotionConnection LocalBackend status_http_error linked_popup \<noteq> linked_popup"
    by auto
  then show ?thesis
    using b by (simp add: a checkNotionConnection_http_error_linked
          showDisconnectedState_not_confirmed linked_popup_fields)
qed

subsection \<open>Connection checks that are answered not connected\<close>

lemma checkNotionConnection_not_connected:
  assumes "userId s = Some uid" "uid \<noteq> []" "status uid = Ok d" "\<not> connected d"
  shows "checkNotionConnection b status s =
       showDisconnectedState b
         (case message d of None \<Rightarrow> ''Not connected to Notion''
          | Some m \<Rightarrow> if m = [] then ''Not connected to Notion'' else m)
         ((if action d = Some ''clear_extension_storage'' then clearExtensionStorage else id)
            ((if reason d = Some ''invalid_token'' \<or> reason d = Some ''no_token''
              then clear_invalid_token b s else s)))"
  using assms by (simp add: checkNotionConnection_def Let_def)

text \<open>
  Claim C2, as the code has it: when the status query for the user id \<open>R\<close> of the popup answers
  not connected, the popup leaves the connected state and the stored key is removed. The
  stored user id is removed, and the placeholder generated again, when the reason is
  \<open>invalid_token\<close> or \<open>no_token\<close>; with the action \<open>clear_extension_storage\<close> the stored user id is
  removed and the popup holds no user id; with neither, the stored user id stays.
\<close>

theorem not_connected_answer_effect:
  assumes "userId s = Some R" and "R \<noteq> []" and "status R = Ok d" and "\<not> connected d"
  shows "\<not> confirmed (checkNotionConnection b status s)
       \<and> \<not> hasValidOpenaiKey (checkNotionConnection b status s)
       \<and> (action d = Some ''clear_extension_storage'' \<longrightarrow>
            sync_userId (checkNotionConnection b status s) = None
          \<and> userId (checkNotionConnection b status s) = None)
       \<and> (action d \<noteq> Some ''clear_extension_storage''
            \<and> (reason d = Some ''invalid_token'' \<or> reason d = Some ''no_token'') \<longrightarrow>
            sync_userId (checkNotionConnection b status s) = None
          \<and> userId (checkNotionConnection b status s) = Some (temporary_userId s))
       \<and> (action d \<noteq> Some ''clear_extension_storage''
            \<and> reason d \<noteq> Some ''invalid_token'' \<and> reason d \<noteq> Some ''no_token'' \<longrightarrow>
            sync_userId (checkNotionConnection b status s) = sync_userId s
          \<and> userId (checkNotionConnection b status s) = Some R)"
proof -
  note eq = checkNotionConnection_not_connected [of s R status d b, OF assms]
  show ?thesis
    unfolding eq using assms(1)
    by (auto simp add: showDisconnectedState_not_confirmed showDisconnectedState_fields
          hasValidOpenaiKey_cleared clearExtensionStorage_fields clear_invalid_token_fields)
qed

theorem not_connected_answer_effect_witness:
  "\<not> confirmed (checkNotionConnection LocalBackend status_invalid_token linked_popup)
   \<and> sync_userId (checkNotionConnection LocalBackend status_invalid_token linked_popup) = None
   \<and> userId (checkNotionConnection LocalBackend status_invalid_token linked_popup)
       = Some (temporary_userId linked_popup)"
  using not_connected_answer_effect
          [of linked_popup "''c425202e-f79f-40e2-98e4-aecacac9ec4e''" status_invalid_token
              "not_connected_data\<lparr>reason := Some ''invalid_token''\<rparr>" LocalBackend]
  by (simp add: linked_popup_fields status_invalid_token_def not_connected_data_def)

text \<open>
  Claim C2 as stated fails: an answer that is not connected and carries no reason leaves the
  stored user id of a connected popup in place.
\<close>

theorem not_connected_keeps_id_counterexample:
  "confirmed linked_popup
   \<and> sync_userId linked_popup = Some ''c425202e-f79f-40e2-98e4-aecacac9ec4e''
   \<and> sync_userId (checkNotionConnection LocalBackend status_not_connected linked_popup)
       = Some ''c425202e-f79f-40e2-98e4-aecacac9ec4e''
   \<and> userId (checkNotionConnection LocalBackend status_not_connected linked_popup)
       = Some ''c425202e-f79f-40e2-98e4-aecacac9ec4e''"
proof -
  have "checkNotionConnection LocalBackend status_not_connected linked_popup
        = showDisconnectedState LocalBackend ''Not connected to Notion'' linked_popup"
    by (simp add: checkNotionConnection_def linked_popup_fields status_not_connected_def
          not_connected_data_def Let_def)
  then show ?thesis
    by (simp add: showDisconnectedState_fields linked_popup_fields)
qed

subsection \<open>Detecting the user\<close>

lemma setNotionUserId_idem: "setNotionUserId u (setNotionUserId u s) = setNotionUserId u s"
  by (rule popup.equality) (simp_all add: setNotionUserId_def)

lemma setNotionUserId_fields:
  "userId (setNotionUserId u s) = Some u"
  "sync_userId (setNotionUserId u s) = Some u"
  "status_className (setNotionUserId u s) = status_className s"
  "sync_openaiApiKey (setNotionUserId u s) = sync_openaiApiKey s"
  "sync_openaiKeyValid (setNotionUserId u s) = sync_openaiKeyValid s"
  by (simp_all add: setNotionUserId_def)

lemma verify_latest_user_cases:
  "verify_latest_user r latest s = (False, s)
   \<or> (verify_latest_user r latest s = (True, setNotionUserId latest s)
       \<and> (\<exists>d. user_status r latest = Ok d \<and> connected d))"
  by (simp add: verify_latest_user_def split: response.split)

lemma verify_latest_user_again:
  "verify_latest_user r latest s = (True, s')
   \<Longrightarrow> verify_latest_user r latest s' = (True, s')"
  by (auto simp add: verify_latest_user_def setNotionUserId_idem split: response.splits if_splits)

lemma detectRealUser_cases:
  "detectRealUser b r s = (False, s)
   \<or> (\<exists>latest. detectRealUser b r s = (True, setNotionUserId latest s)
         \<and> verify_latest_user r latest s = (True, setNotionUserId latest s)
         \<and> (\<exists>data. check_completion r = Ok data \<and> has_users data
                \<and> latest_user_id data = Some latest \<and> latest \<noteq> []))"
  using verify_latest_user_cases
  by (auto simp add: detectRealUser_def split: response.split option.split build.split)

lemma detectRealUser_False: "detectRealUser b r s = (False, s') \<Longrightarrow> s' = s"
  using detectRealUser_cases [of b r s] by auto

lemma detectRealUser_state_idem:
  "snd (detectRealUser b r (snd (detectRealUser b r s))) = snd (detectRealUser b r s)"
proof -
  consider "detectRealUser b r s = (False, s)"
    | latest data where "detectRealUser b r s = (True, setNotionUserId latest s)"
        "verify_latest_user r latest s = (True, setNotionUserId latest s)"
        "check_completion r = Ok data" "has_users data" "latest_user_id data = Some latest"
        "latest \<noteq> []"
    using detectRealUser_cases [of b r s] by blast
  then show ?thesis
  proof cases
    case 1
    then show ?thesis by simp
  next
    case 2
    have "verify_latest_user r latest (setNotionUserId latest s) = (True, setNotionUserId latest s)"
      using 2(2) by (rule verify_latest_user_again)
    then have "snd (detectRealUser b r (setNotionUserId latest s)) = setNotionUserId latest s"
      using 2(3-6)
      by (simp add: detectRealUser_def setNotionUserId_fields split: build.split)
    then show ?thesis
      using 2(1) by simp
  qed
qed

lemma detectRealUser_local_result_idem:
  "fst (detectRealUser LocalBackend r (snd (detectRealUser LocalBackend r s)))
     = fst (detectRealUser LocalBackend r s)"
proof -
  consider "detectRealUser LocalBackend r s = (False, s)"
    | latest data where "detectRealUser LocalBackend r s = (True, setNotionUserId latest s)"
        "verify_latest_user r latest s = (True, setNotionUserId latest s)"
        "check_completion r = Ok data" "has_users data" "latest_user_id data = Some latest"
        "latest \<noteq> []"
    using detectRealUser_cases [of LocalBackend r s] by blast
  then show ?thesis
  proof cases
    case 1
    then show ?thesis by simp
  next
    case 2
    have "verify_latest_user r latest (setNotionUserId latest s) = (True, setNotionUserId latest s)"
      using 2(2) by (rule verify_latest_user_again)
    then have "fst (detectRealUser LocalBackend r (setNotionUserId latest s)) = True"
      using 2(3-6) by (simp add: detectRealUser_def)
    then show ?thesis
      using 2(1) by simp
  qed
qed

text \<open>
  Claim C5: with the same remote answers, a second \<open>detectRealUser\<close> leaves the state that
  the first one produced as it is, in both builds; in the local build it also returns the
  same value. (In the hosted build the first call may return true and the second false,
  on the same state.)
\<close>

theorem detectRealUser_idempotent:
  "snd (detectRealUser b r (snd (detectRealUser b r s))) = snd (detectRealUser b r s)
   \<and> fst (detectRealUser LocalBackend r (snd (detectRealUser LocalBackend r s)))
       = fst (detectRealUser LocalBackend r s)"
  using detectRealUser_state_idem detectRealUser_local_result_idem by blast

lemma detectRealUser_u9:
  "detectRealUser b u9_completed unlinked_popup = (True, setNotionUserId ''u-9'' unlinked_popup)"
  by (simp add: detectRealUser_def verify_latest_user_def u9_completed_def unlinked_popup_def
        status_u9_connected_def split: build.split)

theorem detectRealUser_idempotent_witness:
  "snd (detectRealUser Hosted u9_completed (setNotionUserId ''u-9'' unlinked_popup))
     = setNotionUserId ''u-9'' unlinked_popup"
  using detectRealUser_idempotent [of Hosted u9_completed unlinked_popup]
  by (simp add: detectRealUser_u9)

subsection \<open>Promotion of a detected user\<close>

lemma checkOAuthCompletion_not_completed:
  "\<not> oauth_completed r \<Longrightarrow> checkOAuthCompletion r s = (False, s)"
  by (simp add: oauth_completed_def checkOAuthCompletion_def split: option.splits)

lemma checkOAuthCompletion_False: "checkOAuthCompletion r s = (False, s') \<Longrightarrow> s' = s"
  by (auto simp add: checkOAuthCompletion_def Let_def split: option.splits if_splits)

lemma connect_button_connected_fields:
  "userId (connect_button_connected s) = userId s"
  "sync_userId (connect_button_connected s) = sync_userId s"
  "backendConnected (connect_button_connected s) = backendConnected s"
  "hasValidOpenaiKey (connect_button_connected s) = hasValidOpenaiKey s"
  by (simp_all add: connect_button_connected_def)

lemma setNotionUserId_credential:
  "backendConnected (setNotionUserId u s) = backendConnected s"
  "hasValidOpenaiKey (setNotionUserId u s) = hasValidOpenaiKey s"
proof -
  show "backendConnected (setNotionUserId u s) = backendConnected s"
    by (simp add: setNotionUserId_def)
  show "hasValidOpenaiKey (setNotionUserId u s) = hasValidOpenaiKey s"
    by (rule hasValidOpenaiKey_cong) (simp_all add: setNotionUserId_def)
qed

lemma detectRealUser_promotes:
  assumes "check_completion r = Ok data" "has_users data" "latest_user_id data = Some C"
      "C \<noteq> []" "user_status r C = Ok d" "connected d" "b = Hosted \<Longrightarrow> userId s \<noteq> Some C"
  shows "detectRealUser b r s = (True, setNotionUserId C s)"
  using assms by (auto simp add: detectRealUser_def verify_latest_user_def split: build.split)

text \<open>
  Claim C3: for a popup without a stored user id, when \<open>/oauth/check-completion\<close> names the
  candidate \<open>C\<close> and the status query for \<open>C\<close> answers connected, \<open>detectRealUser\<close> returns true
  and stores \<open>C\<close> as the user id, and the polling tick that made the call ends with the user
  id \<open>C\<close>, stored, and the connected state shown. The hosted build only looks at a candidate
  that differs from the user id of the popup, and its tick asks the background script
  first.
\<close>

theorem discovery_promotes_candidate:
  assumes "sync_userId s = None"
      and "check_completion r = Ok data" and "has_users data" and "latest_user_id data = Some C"
      and "C \<noteq> []"
      and "user_status r C = Ok d" and "connected d"
      and "b = Hosted \<Longrightarrow> userId s \<noteq> Some C"
      and "b = Hosted \<Longrightarrow> \<not> oauth_completed r"
  shows "detectRealUser b r s = (True, setNotionUserId C s)
       \<and> userId (setNotionUserId C s) = Some C
       \<and> sync_userId (setNotionUserId C s) = Some C
       \<and> fst (pollTick b n r a s) = Confirmed
       \<and> userId (snd (snd (pollTick b n r a s))) = Some C
       \<and> sync_userId (snd (snd (pollTick b n r a s))) = Some C
       \<and> confirmed (snd (snd (pollTick b n r a s)))
       \<and> (\<not> summarize_disabled (snd (snd (pollTick b n r a s))))
           = (backendConnected s \<and> hasValidOpenaiKey s)"
proof -
  let ?s1 = "connect_button_connected (setNotionUserId C s)"
  have det: "detectRealUser b r s = (True, setNotionUserId C s)"
    using assms(2-8) by (rule detectRealUser_promotes)
  have "userId ?s1 = Some C"
    by (simp add: connect_button_connected_fields setNotionUserId_fields)
  then have chk: "checkNotionConnection b (user_status r) ?s1 = showConnectedState b (workspace_name d) ?s1"
    using assms(5-7) by (intro checkNotionConnection_connected [of ?s1 C]) simp_all
  have tick: "pollTick b n r a s = (Confirmed, Suc a, checkNotionConnection b (user_status r) ?s1)"
  proof (cases b)
    case LocalBackend
    then show ?thesis
      using det by (simp add: pollTick_def)
  next
    case Hosted
    then have "checkOAuthCompletion r s = (False, s)"
      using assms(9) by (simp add: checkOAuthCompletion_not_completed)
    then show ?thesis
      using det Hosted by (simp add: pollTick_def)
  qed
  show ?thesis
    by (simp add: det tick chk showConnectedState_fields showConnectedState_confirmed
          showConnectedState_summarize connect_button_connected_fields setNotionUserId_fields
          setNotionUserId_credential)
qed

lemma unlinked_popup_fields:
  "userId unlinked_popup = Some ''ZGF0YTppbWFnZS9w''"
  "sync_userId unlinked_popup = None"
  "backendConnected unlinked_popup"
  "hasValidOpenaiKey unlinked_popup"
  by (simp_all add: unlinked_popup_def hasValidOpenaiKey_def) code_simp

lemma u9_completed_answers:
  "check_completion u9_completed = Ok \<lparr>has_users = True, latest_user_id = Some ''u-9''\<rparr>"
  "user_status u9_completed ''u-9'' =
     Ok \<lparr>connected = True, reason = None, action = None, message = None,
         workspace_name = Some ''Acme''\<rparr>"
  "\<not> oauth_completed u9_completed"
  by (simp_all add: u9_completed_def status_u9_connected_def oauth_completed_def)

theorem discovery_promotes_candidate_witness:
  "detectRealUser Hosted u9_completed unlinked_popup = (True, setNotionUserId ''u-9'' unlinked_popup)
   \<and> fst (pollTick Hosted 20 u9_completed 0 unlinked_popup) = Confirmed
   \<and> userId (snd (snd (pollTick Hosted 20 u9_completed 0 unlinked_popup))) = Some ''u-9''
   \<and> sync_userId (snd (snd (pollTick Hosted 20 u9_completed 0 unlinked_popup))) = Some ''u-9''
   \<and> confirmed (snd (snd (pollTick Hosted 20 u9_completed 0 unlinked_popup)))
   \<and> \<not> summarize_disabled (snd (snd (pollTick Hosted 20 u9_completed 0 unlinked_popup)))"
proof -
  have "userId unlinked_popup \<noteq> Some ''u-9''"
    by (simp add: unlinked_popup_fields)
  with discovery_promotes_candidate
         [where s = unlinked_popup and r = u9_completed and C = "''u-9''" and b = Hosted
            and n = 20 and a = 0, OF unlinked_popup_fields(2) u9_completed_answers(1) _ _ _
            u9_completed_answers(2)]
  show ?thesis
    by (simp add: u9_completed_answers(3) unlinked_popup_fields)
qed

subsection \<open>Polling without a link\<close>

lemma poll_timeout_result:
  "fst (poll_timeout n a s) = (if n \<le> a then TimedOut else Pending)"
  "fst (snd (poll_timeout n a s)) = a"
  "fst (poll_catch n a s) = (if n \<le> a then TimedOut else Pending)"
  "fst (snd (poll_catch n a s)) = a"
  by (simp_all add: poll_timeout_def poll_catch_def)

lemma poll_own_status_no_link:
  assumes "\<forall>u d. user_status r u = Ok d \<longrightarrow> \<not> connected d"
  shows "fst (poll_own_status b n r a s) = (if n \<le> a then TimedOut else Pending)
       \<and> fst (snd (poll_own_status b n r a s)) = a"
  using assms
  by (auto simp add: poll_own_status_def poll_timeout_result split: option.split response.split)

lemma verify_latest_user_no_link:
  "\<forall>u d. user_status r u = Ok d \<longrightarrow> \<not> connected d \<Longrightarrow> verify_latest_user r latest s = (False, s)"
  by (auto simp add: verify_latest_user_def split: response.split)

lemma detectRealUser_no_link:
  "\<forall>u d. user_status r u = Ok d \<longrightarrow> \<not> connected d \<Longrightarrow> detectRealUser b r s = (False, s)"
  by (simp add: detectRealUser_def verify_latest_user_no_link
        split: response.split option.split build.split)

lemma pollTick_no_link:
  assumes "\<forall>u d. user_status r u = Ok d \<longrightarrow> \<not> connected d"
      and "b = Hosted \<longrightarrow> \<not> oauth_completed r"
  shows "fst (pollTick b n r a s) = (if n \<le> Suc a then TimedOut else Pending)
       \<and> fst (snd (pollTick b n r a s)) = Suc a"
proof (cases b)
  case LocalBackend
  obtain c s2 where "checkOAuthCompletion r s = (c, s2)"
    by (cases "checkOAuthCompletion r s")
  then show ?thesis
    using LocalBackend poll_own_status_no_link [OF assms(1), where b = b and n = n and a = "Suc a" and s = s2]
    by (simp add: pollTick_def detectRealUser_no_link [OF assms(1)])
next
  case Hosted
  then have "checkOAuthCompletion r s = (False, s)"
    using assms(2) by (simp add: checkOAuthCompletion_not_completed)
  then show ?thesis
    using Hosted poll_own_status_no_link [OF assms(1), where b = b and n = n and a = "Suc a" and s = s]
    by (simp add: pollTick_def detectRealUser_no_link [OF assms(1)])
qed

lemma runPolling_no_link:
  assumes "\<forall>r\<in>set rs. \<forall>u d. user_status r u = Ok d \<longrightarrow> \<not> connected d"
      and "b = Hosted \<longrightarrow> (\<forall>r\<in>set rs. \<not> oauth_completed r)"
      and "a < n"
  shows "(n - a \<le> length rs \<longrightarrow>
            fst (runPolling b n rs a s) = TimedOut \<and> fst (snd (runPolling b n rs a s)) = n)
       \<and> (length rs < n - a \<longrightarrow>
            fst (runPolling b n rs a s) = Pending
          \<and> fst (snd (runPolling b n rs a s)) = a + length rs)"
  using assms
proof (induction rs arbitrary: a s)
  case Nil
  then show ?case by simp
next
  case (Cons r rs)
  have nl: "\<forall>u d. user_status r u = Ok d \<longrightarrow> \<not> connected d"
    using Cons.prems(1) by simp
  have oc: "b = Hosted \<longrightarrow> \<not> oauth_completed r"
    using Cons.prems(2) by simp
  obtain st a' s' where tick: "pollTick b n r a s = (st, a', s')"
    by (cases "pollTick b n r a s")
  have st: "st = (if n \<le> Suc a then TimedOut else Pending)" and a': "a' = Suc a"
    using pollTick_no_link [OF nl oc, where n = n and a = a and s = s] tick by simp_all
  show ?case
  proof (cases "n \<le> Suc a")
    case True
    then have "n = Suc a"
      using Cons.prems(3) by simp
    then show ?thesis
      using tick st a' by simp
  next
    case False
    then have lt: "Suc a < n" by simp
    have run: "runPolling b n (r # rs) a s = runPolling b n rs (Suc a) s'"
      using tick st a' False by simp
    have "\<forall>r\<in>set rs. \<forall>u d. user_status r u = Ok d \<longrightarrow> \<not> connected d"
      "b = Hosted \<longrightarrow> (\<forall>r\<in>set rs. \<not> oauth_completed r)"
      using Cons.prems(1,2) by simp_all
    from Cons.IH [OF this lt, where s = s'] show ?thesis
      unfolding run using lt by auto
  qed
qed


lemma nobody_connected_no_link:
  "\<forall>u d. user_status nobody_connected u = Ok d \<longrightarrow> \<not> connected d"
  "\<not> oauth_completed nobody_connected"
  by (auto simp add: nobody_connected_def status_not_connected_def not_connected_data_def
        oauth_completed_def)


subsection \<open>What a timed-out polling leaves behind\<close>

lemma poll_own_status_unlinked:
  assumes "poll_own_status b n r a s = (st, a', s')" and "st \<noteq> Confirmed"
  shows "(st = Pending \<and> s' = s)
       \<or> (st = TimedOut \<and> (s' = connect_button_reset s
             \<or> s' = showMessage ''Connection timeout. Please try again.'' MsgError
                      (connect_button_reset s)))"
  using assms
  by (auto simp add: poll_own_status_def poll_timeout_def poll_catch_def
        split: option.splits response.splits if_splits)

lemma pollTick_unlinked:
  assumes "pollTick b n r a s = (st, a', s')" and "st \<noteq> Confirmed"
      and "b = LocalBackend \<longrightarrow> \<not> oauth_completed r"
  shows "(st = Pending \<and> s' = s)
       \<or> (st = TimedOut \<and> (s' = connect_button_reset s
             \<or> s' = showMessage ''Connection timeout. Please try again.'' MsgError
                      (connect_button_reset s)))"
proof (cases b)
  case LocalBackend
  then have oc: "checkOAuthCompletion r s = (False, s)"
    using assms(3) by (simp add: checkOAuthCompletion_not_completed)
  obtain d s1 where det: "detectRealUser b r s = (d, s1)"
    by (cases "detectRealUser b r s")
  have "\<not> d"
    using assms(1,2) det LocalBackend by (auto simp add: pollTick_def)
  then have "s1 = s"
    using det detectRealUser_False by simp
  then have "poll_own_status b n r (Suc a) s = (st, a', s')"
    using assms(1) det \<open>\<not> d\<close> oc LocalBackend by (simp add: pollTick_def)
  then show ?thesis
    using assms(2) by (rule poll_own_status_unlinked)
next
  case Hosted
  obtain c s1 where oc: "checkOAuthCompletion r s = (c, s1)"
    by (cases "checkOAuthCompletion r s")
  have "\<not> c"
    using assms(1,2) oc Hosted by (auto simp add: pollTick_def)
  then have s1: "s1 = s"
    using oc checkOAuthCompletion_False by simp
  obtain d s2 where det: "detectRealUser b r s = (d, s2)"
    by (cases "detectRealUser b r s")
  have "\<not> d"
    using assms(1,2) oc \<open>\<not> c\<close> s1 det Hosted by (auto simp add: pollTick_def)
  then have "s2 = s"
    using det detectRealUser_False by simp
  then have "poll_own_status b n r (Suc a) s = (st, a', s')"
    using assms(1) det \<open>\<not> d\<close> oc \<open>\<not> c\<close> s1 Hosted by (simp add: pollTick_def)
  then show ?thesis
    using assms(2) by (rule poll_own_status_unlinked)
qed

lemma runPolling_timed_out:
  assumes "runPolling b n rs a s = (TimedOut, a', s')"
      and "b = LocalBackend \<longrightarrow> (\<forall>r\<in>set rs. \<not> oauth_completed r)"
  shows "s' = connect_button_reset s
       \<or> s' = showMessage ''Connection timeout. Please try again.'' MsgError
                (connect_button_reset s)"
  using assms
proof (induction rs arbitrary: a s)
  case Nil
  then show ?case by simp
next
  case (Cons r rs)
  obtain st a1 s1 where tick: "pollTick b n r a s = (st, a1, s1)"
    by (cases "pollTick b n r a s")
  have nc: "st \<noteq> Confirmed"
    using Cons.prems(1) tick by (cases st) simp_all
  have oc: "b = LocalBackend \<longrightarrow> \<not> oauth_completed r"
    using Cons.prems(2) by simp
  from pollTick_unlinked [OF tick nc oc] show ?case
  proof
    assume "st = Pending \<and> s1 = s"
    then have "runPolling b n rs a1 s = (TimedOut, a', s')"
      using Cons.prems(1) tick by simp
    moreover have "b = LocalBackend \<longrightarrow> (\<forall>r\<in>set rs. \<not> oauth_completed r)"
      using Cons.prems(2) by simp
    ultimately show ?thesis
      by (rule Cons.IH)
  next
    assume "st = TimedOut \<and> (s1 = connect_button_reset s
             \<or> s1 = showMessage ''Connection timeout. Please try again.'' MsgError
                      (connect_button_reset s))"
    then show ?thesis
      using Cons.prems(1) tick by auto
  qed
qed

text \<open>
  Claim C8: when the polling loop ends timed out, the state differs from the state at its
  start in the connect button and the shown message only; the user id, the stored user
  id, the connection state and the stored key are untouched. In the local build this
  needs that the background script reported no completed OAuth during the loop, since that
  build stores the reported user id and goes on polling.
\<close>

theorem polling_timeout_keeps_identity:
  assumes "runPolling b n rs a s = (TimedOut, a', s')"
      and "b = LocalBackend \<longrightarrow> (\<forall>r\<in>set rs. \<not> oauth_completed r)"
  shows "s' = s\<lparr>connect_text := ConnectToNotion, connect_disabled := False,
               connect_connecting := False, connect_connected := False,
               shown_message := shown_message s'\<rparr>
       \<and> userId s' = userId s
       \<and> sync_userId s' = sync_userId s
       \<and> confirmed s' = confirmed s
       \<and> sync_openaiApiKey s' = sync_openaiApiKey s
       \<and> sync_openaiKeyValid s' = sync_openaiKeyValid s
       \<and> local_storage s' = local_storage s"
  using runPolling_timed_out [OF assms]
  by (auto simp add: connect_button_reset_def showMessage_def confirmed_def)

theorem polling_timeout_keeps_identity_witness:
  "userId (snd (snd (runPolling LocalBackend 3 (replicate 5 nobody_connected) 0 unlinked_popup)))
     = userId unlinked_popup
   \<and> sync_userId (snd (snd (runPolling LocalBackend 3 (replicate 5 nobody_connected) 0 unlinked_popup)))
     = None
   \<and> \<not> confirmed (snd (snd (runPolling LocalBackend 3 (replicate 5 nobody_connected) 0 unlinked_popup)))"
proof -
  obtain st a' s' where run:
    "runPolling LocalBackend 3 (replicate 5 nobody_connected) 0 unlinked_popup = (st, a', s')"
    by (cases "runPolling LocalBackend 3 (replicate 5 nobody_connected) 0 unlinked_popup")
  have "st = TimedOut"
    using runPolling_no_link
            [where b = LocalBackend and n = 3 and a = 0 and s = unlinked_popup
               and rs = "replicate 5 nobody_connected"]
          run
    by (simp add: nobody_connected_no_link)
  then have "runPolling LocalBackend 3 (replicate 5 nobody_connected) 0 unlinked_popup
             = (TimedOut, a', s')"
    using run by simp
  from polling_timeout_keeps_identity [OF this]
  have "userId s' = userId unlinked_popup" "sync_userId s' = sync_userId unlinked_popup"
    "confirmed s' = confirmed unlinked_popup"
    by (simp_all add: nobody_connected_no_link)
  moreover have "\<not> confirmed unlinked_popup"
    by (simp add: confirmed_def unlinked_popup_def)
  ultimately show ?thesis
    by (simp add: run unlinked_popup_fields)
qed

subsection \<open>Length of the placeholder\<close>




end
